theory Spec2Isabelle
  imports Complex_Main
begin

section \<open>Data model (app/models.py, app/config.py, app/providers/base.py)\<close>

text \<open>
  The \<open>Literal[...]\<close> types of \<open>app/models.py\<close> are closed enumerations. Each becomes a
  datatype, with the function that gives back the Python string the constructor stands for.
\<close>

datatype priority = Low_cost | Low_latency | High_quality

datatype task = Chat | Summarise | Extract | Classify | Rewrite | QA

datatype provider = Azure | Bedrock

fun priority_str :: "priority \<Rightarrow> string" where
  "priority_str Low_cost = ''low_cost''"
| "priority_str Low_latency = ''low_latency''"
| "priority_str High_quality = ''high_quality''"

fun task_str :: "task \<Rightarrow> string" where
  "task_str Chat = ''chat''"
| "task_str Summarise = ''summarise''"
| "task_str Extract = ''extract''"
| "task_str Classify = ''classify''"
| "task_str Rewrite = ''rewrite''"
| "task_str QA = ''qa''"

fun provider_str :: "provider \<Rightarrow> string" where
  "provider_str Azure = ''azure''"
| "provider_str Bedrock = ''bedrock''"

text \<open>
  Python's \<open>float\<close> is modelled by \<open>real\<close>: the arithmetic of the cost estimate is
  carried out exactly, and the rounding error of binary64 operations is not part of the model.
  Python's \<open>int\<close> is \<open>int\<close>, \<open>str\<close> is \<open>string\<close> (one list element per character,
  which is what \<open>len\<close> counts).
\<close>

record generate_request =
  prompt :: string
  task :: task
  priority :: priority
  max_output_tokens :: int
  temperature :: real
  top_p :: real
  provider_hint :: "provider option"
  metadata :: "(string \<times> string) list"

record azure_config =
  endpoint :: string
  api_key :: string
  api_version :: string
  deployment_low_cost :: string
  deployment_high_quality :: string
  deployment_low_latency :: string

record bedrock_config =
  region :: string
  model_low_cost :: string
  model_high_quality :: string
  model_low_latency :: string

record app_config =
  env :: string
  log_db_path :: string
  hard_timeout_s :: real
  enable_request_logging :: bool
  azure_cost_per_1k_input_usd :: real
  azure_cost_per_1k_output_usd :: real
  bedrock_cost_per_1k_input_usd :: real
  bedrock_cost_per_1k_output_usd :: real

text \<open>
  \<open>load_config\<close> reads every field from the process environment. The values below are the
  defaults it passes to \<open>_get_env\<close> for the fields of \<open>AppConfig\<close>, that is, the
  configuration of a process that sets none of these variables.
\<close>

definition default_app_config :: app_config where
  "default_app_config =
     \<lparr> env = ''dev'',
       log_db_path = ''./usage_logs.sqlite'',
       hard_timeout_s = 20,
       enable_request_logging = True,
       azure_cost_per_1k_input_usd = 15 / 100000,
       azure_cost_per_1k_output_usd = 60 / 100000,
       bedrock_cost_per_1k_input_usd = 25 / 100000,
       bedrock_cost_per_1k_output_usd = 125 / 100000 \<rparr>"

record cost_estimate =
  input_tokens_est :: int
  output_tokens_est :: int
  total_tokens_est :: int
  cost_est_usd :: real

section \<open>Cost estimator (app/cost_tracker.py)\<close>

text \<open>
  \<open>int(x)\<close> on a float truncates towards zero. \<open>round(x, n)\<close> rounds to the closest
  multiple of \<open>10 ^ (- n)\<close> and, of two equally close multiples, takes the even one.
\<close>

definition py_int :: "real \<Rightarrow> int" where
  "py_int x = (if 0 \<le> x then \<lfloor>x\<rfloor> else \<lceil>x\<rceil>)"

definition round_half_even :: "real \<Rightarrow> int" where
  "round_half_even x =
     (let f = \<lfloor>x\<rfloor>; d = x - of_int f
      in if d < 1 / 2 then f
         else if 1 / 2 < d then f + 1
         else if even f then f else f + 1)"

definition py_round :: "real \<Rightarrow> nat \<Rightarrow> real" where
  "py_round x ndigits = of_int (round_half_even (x * 10 ^ ndigits)) / 10 ^ ndigits"

text \<open>
  \<open>est_tokens\<close>: \<open>if not text: return 0\<close>, then \<open>max(1, int(len(text) / 4))\<close>. The
  quotient \<open>len(text) / 4\<close> is Python's true division.
\<close>

definition est_tokens :: "string \<Rightarrow> int" where
  "est_tokens text =
     (if text = [] then 0 else max 1 (py_int (real (length text) / 4)))"

text \<open>\<open>estimate_cost\<close>; the \<open>provider\<close> argument is accepted and not used, as in the source.\<close>

definition estimate_cost :: "string \<Rightarrow> string \<Rightarrow> string \<Rightarrow> real \<Rightarrow> real \<Rightarrow> cost_estimate" where
  "estimate_cost provider_name prompt_text output_text cost_per_1k_input_usd cost_per_1k_output_usd =
     (let in_tok = est_tokens prompt_text;
          out_tok = est_tokens output_text;
          total = in_tok + out_tok;
          cost = (of_int in_tok / 1000) * cost_per_1k_input_usd
               + (of_int out_tok / 1000) * cost_per_1k_output_usd
      in \<lparr> input_tokens_est = in_tok,
           output_tokens_est = out_tok,
           total_tokens_est = total,
           cost_est_usd = py_round cost 8 \<rparr>)"

subsection \<open>The estimator as the specification words it\<close>

text \<open>
  The specification's reference definition: tokens are \<open>max(1, floor(char_count / 4))\<close> for
  non-empty text and \<open>0\<close> for empty text; the total is their sum; the cost is
  \<open>(input_tokens/1000 \<times> input_unit_price) + (output_tokens/1000 \<times> output_unit_price)\<close>,
  rounded to 8 decimal places.
\<close>

definition spec_tokens :: "nat \<Rightarrow> int" where
  "spec_tokens char_count = (if char_count = 0 then 0 else max 1 (int (char_count div 4)))"

definition spec_estimate_cost :: "real \<Rightarrow> real \<Rightarrow> string \<Rightarrow> string \<Rightarrow> cost_estimate" where
  "spec_estimate_cost input_unit_price output_unit_price prompt_text output_text =
     \<lparr> input_tokens_est = spec_tokens (length prompt_text),
       output_tokens_est = spec_tokens (length output_text),
       total_tokens_est = spec_tokens (length prompt_text) + spec_tokens (length output_text),
       cost_est_usd =
         py_round (of_int (spec_tokens (length prompt_text)) / 1000 * input_unit_price
                   + of_int (spec_tokens (length output_text)) / 1000 * output_unit_price) 8 \<rparr>"

section \<open>Routing policy (app/router.py)\<close>

text \<open>
  \<open>choose_models\<close> has two parts. The first is the chain of comparisons on
  \<open>req.priority\<close> that fills \<open>primary\<close> and \<open>secondary\<close>; the second swaps the two when
  \<open>req.provider_hint\<close> names a provider other than the primary's. A selection is the
  source's pair \<open>(provider_name, model_or_deployment)\<close> of strings.
\<close>

type_synonym selection = "string \<times> string"

definition routing_table :: "priority \<Rightarrow> azure_config \<Rightarrow> bedrock_config \<Rightarrow> selection \<times> selection" where
  "routing_table p azure bedrock =
     (if p = Low_cost then
        ((''bedrock'', model_low_cost bedrock), (''azure'', deployment_low_cost azure))
      else if p = High_quality then
        ((''bedrock'', model_high_quality bedrock), (''azure'', deployment_high_quality azure))
      else
        ((''azure'', deployment_low_latency azure), (''bedrock'', model_low_latency bedrock)))"

definition choose_models :: "generate_request \<Rightarrow> azure_config \<Rightarrow> bedrock_config \<Rightarrow> selection \<times> selection" where
  "choose_models req azure bedrock =
     (let (primary, secondary) = routing_table (priority req) azure bedrock
      in if provider_hint req = Some Azure \<and> fst primary \<noteq> ''azure'' then (secondary, primary)
         else if provider_hint req = Some Bedrock \<and> fst primary \<noteq> ''bedrock'' then (secondary, primary)
         else (primary, secondary))"

section \<open>Prompt composer (app/router.py)\<close>

text \<open>\<open>build_system_prompt\<close>: the base instruction, a blank line, and the hint of the task.\<close>

definition base_prompt :: string where
  "base_prompt =
     ''You are a helpful enterprise assistant. '' @
     ''Be concise, correct, and safe. '' @
     ''If the user requests sensitive personal data, refuse. '' @
     ''If uncertain, say you are uncertain and ask a short clarifying question.''"

fun task_hints :: "task \<Rightarrow> string" where
  "task_hints Summarise = ''Summarise the input in bullet points, capturing key facts and decisions.''"
| "task_hints Extract = ''Extract key entities/fields as JSON. If a field is missing, set it to null.''"
| "task_hints Classify = ''Classify the input into a small set of labels and explain briefly.''"
| "task_hints Rewrite = ''Rewrite for clarity and professionalism without changing meaning.''"
| "task_hints QA = ''Answer the question using the provided text. If missing context, say so.''"
| "task_hints Chat = ''Respond naturally and helpfully.''"

definition build_system_prompt :: "task \<Rightarrow> string" where
  "build_system_prompt t = base_prompt @ [CHR 0x0A, CHR 0x0A] @ ''Task: '' @ task_hints t"

section \<open>Collaborators of the orchestrator\<close>

text \<open>
  \<open>ProviderResult\<close> (app/providers/base.py) and \<open>ProviderResponse\<close> (app/models.py). The
  field \<open>raw\<close> is left out of both: the orchestrator never reads it and always stores
  \<open>None\<close> in the response.
\<close>

record provider_result =
  result_provider :: string
  result_model :: string
  result_text :: string
  result_latency_ms :: int

record provider_response =
  resp_provider :: string
  resp_model :: string
  resp_text :: string
  resp_latency_ms :: int
  usage :: cost_estimate

text \<open>The dictionary \<open>run_generation\<close> returns (the fields of \<open>GenerateResponse\<close>).\<close>

record generate_response =
  request_id :: string
  chosen_provider :: string
  chosen_model :: string
  response_text :: string
  latency_ms :: int
  fallback_used :: bool
  attempts :: "provider_response list"

text \<open>A row of the table \<open>usage_logs\<close>, as \<open>UsageLogger.log\<close> inserts it.\<close>

record usage_row =
  row_ts :: int
  row_request_id :: string
  row_provider :: string
  row_model :: string
  row_task :: task
  row_priority :: priority
  row_input_tokens_est :: int
  row_output_tokens_est :: int
  row_total_tokens_est :: int
  row_cost_est_usd :: real
  row_latency_ms :: int
  row_success :: int
  row_error :: "string option"

text \<open>
  Exceptions. A provider's \<open>generate\<close> raises on a bad status, a malformed payload, a timeout
  or a transport error; \<open>UsageLogger.log\<close> raises when sqlite does; \<open>run_generation\<close>
  itself raises \<open>RuntimeError\<close>. All are instances of \<open>Exception\<close>, so every
  \<open>except Exception\<close> of the source catches each of them. \<open>str_exn\<close> is \<open>str(e)\<close>.
\<close>

datatype exn = ProviderError string | SinkError string | RuntimeError string

fun str_exn :: "exn \<Rightarrow> string" where
  "str_exn (ProviderError m) = m"
| "str_exn (SinkError m) = m"
| "str_exn (RuntimeError m) = m"

text \<open>The keyword arguments of a provider's \<open>generate\<close>.\<close>

record generate_args =
  arg_prompt :: string
  arg_system_prompt :: string
  arg_model_or_deployment :: string
  arg_max_output_tokens :: int
  arg_temperature :: real
  arg_top_p :: real
  arg_timeout_s :: real

text \<open>
  What lies outside the program: the answer of each provider to a call (\<open>Inl\<close> the message
  of the exception it raises), whether the \<open>n\<close>-th call of \<open>UsageLogger.log\<close> raises
  (and with which message), and the value of \<open>int(time.time())\<close> at that call.
\<close>

record world =
  azure_generate :: "generate_args \<Rightarrow> string + provider_result"
  bedrock_generate :: "generate_args \<Rightarrow> string + provider_result"
  sink_error :: "nat \<Rightarrow> string option"
  clock :: "nat \<Rightarrow> int"

text \<open>
  The usage database: the rows of \<open>usage_logs\<close> in insertion order, and the number of
  calls of \<open>log\<close> made so far, which selects the answer of the world.
\<close>

record usage_db =
  usage_logs :: "usage_row list"
  log_calls :: nat

text \<open>
  \<open>UsageLogger.log\<close>: one \<open>INSERT\<close> and a \<open>commit\<close>. When sqlite raises, nothing is
  committed and the exception leaves \<open>log\<close> (the \<open>finally\<close> only closes the connection).
\<close>

definition usage_logger_log ::
  "world \<Rightarrow> usage_db \<Rightarrow> string \<Rightarrow> string \<Rightarrow> string \<Rightarrow> task \<Rightarrow> priority \<Rightarrow> cost_estimate
     \<Rightarrow> int \<Rightarrow> bool \<Rightarrow> string option \<Rightarrow> (exn + unit) \<times> usage_db" where
  "usage_logger_log w db rid provider_name model_id t p estimate lat success error =
     (case sink_error w (log_calls db) of
        Some m \<Rightarrow> (Inl (SinkError m), db\<lparr>log_calls := Suc (log_calls db)\<rparr>)
      | None \<Rightarrow>
          (Inr (),
           db\<lparr>usage_logs := usage_logs db @
                 [\<lparr> row_ts = clock w (log_calls db),
                    row_request_id = rid,
                    row_provider = provider_name,
                    row_model = model_id,
                    row_task = t,
                    row_priority = p,
                    row_input_tokens_est = input_tokens_est estimate,
                    row_output_tokens_est = output_tokens_est estimate,
                    row_total_tokens_est = total_tokens_est estimate,
                    row_cost_est_usd = cost_est_usd estimate,
                    row_latency_ms = lat,
                    row_success = (if success then 1 else 0),
                    row_error = error \<rparr>],
               log_calls := Suc (log_calls db)\<rparr>))"

section \<open>Generation orchestrator (app/router.py)\<close>

definition make_args :: "app_config \<Rightarrow> generate_request \<Rightarrow> string \<Rightarrow> string \<Rightarrow> generate_args" where
  "make_args app_cfg req system_prompt model_id =
     \<lparr> arg_prompt = prompt req,
       arg_system_prompt = system_prompt,
       arg_model_or_deployment = model_id,
       arg_max_output_tokens = max_output_tokens req,
       arg_temperature = temperature req,
       arg_top_p = top_p req,
       arg_timeout_s = hard_timeout_s app_cfg \<rparr>"

text \<open>
  The inner function \<open>call\<close>. Its free variables (\<open>app_cfg\<close>, \<open>req\<close>, \<open>request_id\<close>,
  \<open>system_prompt\<close>, the providers and the logger) are arguments here. An exception of
  \<open>generate\<close> or of \<open>usage_logger.log\<close> leaves \<open>call\<close>: there is no handler in it.
\<close>

definition call ::
  "world \<Rightarrow> app_config \<Rightarrow> generate_request \<Rightarrow> string \<Rightarrow> string \<Rightarrow> string \<Rightarrow> string \<Rightarrow> usage_db
     \<Rightarrow> (exn + provider_response) \<times> usage_db" where
  "call w app_cfg req rid system_prompt provider_name model_id db =
     (case (if provider_name = ''azure'' then
              (case azure_generate w (make_args app_cfg req system_prompt model_id) of
                 Inl m \<Rightarrow> Inl (ProviderError m)
               | Inr result \<Rightarrow>
                   Inr (result,
                        estimate_cost ''azure'' (prompt req) (result_text result)
                          (azure_cost_per_1k_input_usd app_cfg) (azure_cost_per_1k_output_usd app_cfg)))
            else
              (case bedrock_generate w (make_args app_cfg req system_prompt model_id) of
                 Inl m \<Rightarrow> Inl (ProviderError m)
               | Inr result \<Rightarrow>
                   Inr (result,
                        estimate_cost ''bedrock'' (prompt req) (result_text result)
                          (bedrock_cost_per_1k_input_usd app_cfg) (bedrock_cost_per_1k_output_usd app_cfg))))
      of
        Inl e \<Rightarrow> (Inl e, db)
      | Inr (result, est) \<Rightarrow>
          (let response =
                 \<lparr> resp_provider = provider_name,
                   resp_model = model_id,
                   resp_text = result_text result,
                   resp_latency_ms = result_latency_ms result,
                   usage = est \<rparr>
           in if enable_request_logging app_cfg then
                (case usage_logger_log w db rid provider_name model_id (task req) (priority req)
                        est (result_latency_ms result) True None of
                   (Inl e, db') \<Rightarrow> (Inl e, db')
                 | (Inr u, db') \<Rightarrow> (Inr response, db'))
              else (Inr response, db)))"

text \<open>
  The body of both \<open>except\<close> handlers up to the point where they part: when logging is
  enabled, a failure row with the input estimate only, latency \<open>0\<close> and the first 500
  characters of \<open>str(e)\<close>. The source writes this block twice, once for each provider.
\<close>

definition log_failure ::
  "world \<Rightarrow> app_config \<Rightarrow> generate_request \<Rightarrow> string \<Rightarrow> selection \<Rightarrow> exn \<Rightarrow> usage_db
     \<Rightarrow> (exn + unit) \<times> usage_db" where
  "log_failure w app_cfg req rid sel e db =
     (if enable_request_logging app_cfg then
        usage_logger_log w db rid (fst sel) (snd sel) (task req) (priority req)
          \<lparr> input_tokens_est = est_tokens (prompt req),
            output_tokens_est = 0,
            total_tokens_est = est_tokens (prompt req),
            cost_est_usd = 0 \<rparr>
          0 False (Some (take 500 (str_exn e)))
      else (Inr (), db))"

definition make_response :: "string \<Rightarrow> provider_response \<Rightarrow> bool \<Rightarrow> provider_response list \<Rightarrow> generate_response" where
  "make_response rid chosen fb atts =
     \<lparr> request_id = rid,
       chosen_provider = resp_provider chosen,
       chosen_model = resp_model chosen,
       response_text = resp_text chosen,
       latency_ms = resp_latency_ms chosen,
       fallback_used = fb,
       attempts = atts \<rparr>"

text \<open>
  \<open>run_generation\<close>. \<open>rid\<close> is the value of \<open>str(uuid.uuid4())\<close>. An exception raised
  inside an \<open>except\<close> handler, outside the inner \<open>try\<close>, leaves \<open>run_generation\<close>.
\<close>

definition run_generation ::
  "world \<Rightarrow> app_config \<Rightarrow> azure_config \<Rightarrow> bedrock_config \<Rightarrow> generate_request \<Rightarrow> string \<Rightarrow> usage_db
     \<Rightarrow> (exn + generate_response) \<times> usage_db" where
  "run_generation w app_cfg azure_cfg bedrock_cfg req rid db =
     (let system_prompt = build_system_prompt (task req);
          (primary, secondary) = choose_models req azure_cfg bedrock_cfg
      in case call w app_cfg req rid system_prompt (fst primary) (snd primary) db of
           (Inr pr, db1) \<Rightarrow> (Inr (make_response rid pr False [pr]), db1)
         | (Inl e1, db1) \<Rightarrow>
             (case log_failure w app_cfg req rid primary e1 db1 of
                (Inl le, db2) \<Rightarrow> (Inl le, db2)
              | (Inr u, db2) \<Rightarrow>
                  (case call w app_cfg req rid system_prompt (fst secondary) (snd secondary) db2 of
                     (Inr sr, db3) \<Rightarrow> (Inr (make_response rid sr True [sr]), db3)
                   | (Inl e2, db3) \<Rightarrow>
                       (case log_failure w app_cfg req rid secondary e2 db3 of
                          (Inl le, db4) \<Rightarrow> (Inl le, db4)
                        | (Inr u, db4) \<Rightarrow>
                            (Inl (RuntimeError
                                    (''Both providers failed. Primary: '' @ str_exn e1 @
                                     ''; Secondary: '' @ str_exn e2)),
                             db4)))))"

subsection \<open>Observations on a run\<close>

text \<open>
  The outcome of the provider's own \<open>generate\<close> for a selection, the primary attempt (the
  first \<open>call\<close>), and the secondary attempt, which exists only when the primary attempt
  raised and the handler reached the inner \<open>try\<close>.
\<close>

definition provider_outcome ::
  "world \<Rightarrow> app_config \<Rightarrow> generate_request \<Rightarrow> selection \<Rightarrow> string + provider_result" where
  "provider_outcome w app_cfg req sel =
     (if fst sel = ''azure''
      then azure_generate w (make_args app_cfg req (build_system_prompt (task req)) (snd sel))
      else bedrock_generate w (make_args app_cfg req (build_system_prompt (task req)) (snd sel)))"

definition primary_attempt ::
  "world \<Rightarrow> app_config \<Rightarrow> azure_config \<Rightarrow> bedrock_config \<Rightarrow> generate_request \<Rightarrow> string \<Rightarrow> usage_db
     \<Rightarrow> (exn + provider_response) \<times> usage_db" where
  "primary_attempt w app_cfg azure_cfg bedrock_cfg req rid db =
     (let primary = fst (choose_models req azure_cfg bedrock_cfg)
      in call w app_cfg req rid (build_system_prompt (task req)) (fst primary) (snd primary) db)"

definition secondary_attempt ::
  "world \<Rightarrow> app_config \<Rightarrow> azure_config \<Rightarrow> bedrock_config \<Rightarrow> generate_request \<Rightarrow> string \<Rightarrow> usage_db
     \<Rightarrow> ((exn + provider_response) \<times> usage_db) option" where
  "secondary_attempt w app_cfg azure_cfg bedrock_cfg req rid db =
     (let (primary, secondary) = choose_models req azure_cfg bedrock_cfg
      in case primary_attempt w app_cfg azure_cfg bedrock_cfg req rid db of
           (Inr pr, db1) \<Rightarrow> None
         | (Inl e1, db1) \<Rightarrow>
             (case log_failure w app_cfg req rid primary e1 db1 of
                (Inl le, db2) \<Rightarrow> None
              | (Inr u, db2) \<Rightarrow>
                  Some (call w app_cfg req rid (build_system_prompt (task req))
                          (fst secondary) (snd secondary) db2)))"

text \<open>The rows a run appended to a database that held \<open>db\<close> before it.\<close>

definition new_rows :: "usage_db \<Rightarrow> usage_db \<Rightarrow> usage_row list" where
  "new_rows db db' = drop (length (usage_logs db)) (usage_logs db')"

section \<open>Concrete inputs\<close>

text \<open>
  A configuration, a request and five worlds on which the theorems below are evaluated. In
  \<open>world_ok\<close> both providers answer and every write is committed; \<open>world_sink_down\<close>
  differs from it only in that every call of \<open>log\<close> raises, and
  \<open>world_first_write_fails\<close> only in that the first call of \<open>log\<close> raises (a
  database that is locked for a moment); in \<open>world_primary_down\<close> Bedrock raises and
  Azure answers; in \<open>world_both_down\<close> both raise.
\<close>

definition ex_azure :: azure_config where
  "ex_azure =
     \<lparr> endpoint = ''https://example.openai.azure.com'',
       api_key = ''k'',
       api_version = ''2024-02-15-preview'',
       deployment_low_cost = ''gpt-4o-mini'',
       deployment_high_quality = ''gpt-4o'',
       deployment_low_latency = ''gpt-35-turbo'' \<rparr>"

definition ex_bedrock :: bedrock_config where
  "ex_bedrock =
     \<lparr> region = ''eu-west-1'',
       model_low_cost = ''claude-haiku'',
       model_high_quality = ''claude-opus'',
       model_low_latency = ''claude-instant'' \<rparr>"

definition ex_request :: generate_request where
  "ex_request =
     \<lparr> prompt = ''What is a monad?'',
       task = Chat,
       priority = Low_cost,
       max_output_tokens = 512,
       temperature = 2 / 10,
       top_p = 9 / 10,
       provider_hint = None,
       metadata = [] \<rparr>"

definition empty_db :: usage_db where
  "empty_db = \<lparr> usage_logs = [], log_calls = 0 \<rparr>"

definition world_ok :: world where
  "world_ok =
     \<lparr> azure_generate = (\<lambda>a. Inr \<lparr> result_provider = ''azure'',
                                   result_model = arg_model_or_deployment a,
                                   result_text = ''A monoid in the category of endofunctors.'',
                                   result_latency_ms = 120 \<rparr>),
       bedrock_generate = (\<lambda>a. Inr \<lparr> result_provider = ''bedrock'',
                                     result_model = arg_model_or_deployment a,
                                     result_text = ''A burrito.'',
                                     result_latency_ms = 95 \<rparr>),
       sink_error = (\<lambda>n. None),
       clock = (\<lambda>n. 1700000000) \<rparr>"

definition world_sink_down :: world where
  "world_sink_down = world_ok \<lparr> sink_error := (\<lambda>n. Some ''database is locked'') \<rparr>"

definition world_first_write_fails :: world where
  "world_first_write_fails =
     world_ok \<lparr> sink_error := (\<lambda>n. if n = 0 then Some ''database is locked'' else None) \<rparr>"

definition world_primary_down :: world where
  "world_primary_down = world_ok \<lparr> bedrock_generate := (\<lambda>a. Inl ''Read timed out'') \<rparr>"

definition world_both_down :: world where
  "world_both_down =
     world_ok \<lparr> bedrock_generate := (\<lambda>a. Inl ''Read timed out''),
                azure_generate := (\<lambda>a. Inl ''Azure OpenAI error 503: busy'') \<rparr>"

section \<open>The cost estimator: proofs\<close>

lemma est_tokens_spec: "est_tokens t = spec_tokens (length t)"
proof -
  have "\<lfloor>real (length t) / 4\<rfloor> = int (length t div 4)"
    using floor_divide_of_nat_eq [of "length t" 4, where ?'a = real] by simp
  then show ?thesis
    by (simp add: est_tokens_def spec_tokens_def py_int_def)
qed

lemma spec_tokens_mono: "m \<le> n \<Longrightarrow> spec_tokens m \<le> spec_tokens n"
  by (auto simp: spec_tokens_def div_le_mono)

lemma round_half_even_mono:
  assumes "x \<le> y"
  shows "round_half_even x \<le> round_half_even y"
proof (cases "\<lfloor>x\<rfloor> = \<lfloor>y\<rfloor>")
  case True
  with assms show ?thesis
    by (auto simp: round_half_even_def Let_def)
next
  case False
  moreover have "\<lfloor>x\<rfloor> \<le> \<lfloor>y\<rfloor>"
    using assms by (rule floor_mono)
  ultimately have "\<lfloor>x\<rfloor> + 1 \<le> \<lfloor>y\<rfloor>"
    by simp
  moreover have "round_half_even x \<le> \<lfloor>x\<rfloor> + 1"
    by (simp add: round_half_even_def Let_def)
  moreover have "\<lfloor>y\<rfloor> \<le> round_half_even y"
    by (simp add: round_half_even_def Let_def)
  ultimately show ?thesis
    by linarith
qed

lemma py_round_mono:
  assumes "x \<le> y"
  shows "py_round x n \<le> py_round y n"
proof -
  from assms have "x * 10 ^ n \<le> y * 10 ^ n"
    by (simp add: mult_right_mono)
  then have "round_half_even (x * 10 ^ n) \<le> round_half_even (y * 10 ^ n)"
    by (rule round_half_even_mono)
  then show ?thesis
    by (simp add: py_round_def divide_right_mono)
qed

lemma py_round_zero: "py_round 0 n = 0"
  by (simp add: py_round_def round_half_even_def)






section \<open>The routing policy: proofs\<close>

lemma routing_table_providers:
  "fst (fst (routing_table p azure bedrock)) \<noteq> fst (snd (routing_table p azure bedrock))"
  by (simp add: routing_table_def)

text \<open>
  Claim C9. For every request (each priority, any hint or none) the two selections returned by
  \<open>choose_models\<close> name different providers.
\<close>

theorem choose_models_distinct_providers:
  "fst (fst (choose_models req azure bedrock)) \<noteq> fst (snd (choose_models req azure bedrock))"
  by (simp add: choose_models_def routing_table_def Let_def)

text \<open>
  Claim C8. When the hint is present and differs from the provider of the table's primary,
  \<open>choose_models\<close> returns the table's pair swapped, so the hinted provider is primary and
  the other one stays as secondary. When the hint is absent or equals the provider of the table's
  primary, the table's pair is returned as it is. In particular a hint that equals the provider of
  the table's secondary makes that provider the primary.
\<close>

theorem choose_models_hint:
  "(\<forall>h. provider_hint req = Some h
         \<and> provider_str h \<noteq> fst (fst (routing_table (priority req) azure bedrock))
       \<longrightarrow> choose_models req azure bedrock
             = (snd (routing_table (priority req) azure bedrock),
                fst (routing_table (priority req) azure bedrock))
           \<and> fst (fst (choose_models req azure bedrock)) = provider_str h
           \<and> fst (snd (choose_models req azure bedrock)) \<noteq> provider_str h)
   \<and> (provider_hint req = None
        \<or> (\<exists>h. provider_hint req = Some h
                \<and> provider_str h = fst (fst (routing_table (priority req) azure bedrock)))
       \<longrightarrow> choose_models req azure bedrock = routing_table (priority req) azure bedrock)
   \<and> (\<forall>h. provider_hint req = Some h
         \<and> provider_str h = fst (snd (routing_table (priority req) azure bedrock))
       \<longrightarrow> fst (fst (choose_models req azure bedrock)) = provider_str h)"
proof (intro conjI allI impI)
  fix h
  assume a: "provider_hint req = Some h
             \<and> provider_str h \<noteq> fst (fst (routing_table (priority req) azure bedrock))"
  then show "choose_models req azure bedrock
               = (snd (routing_table (priority req) azure bedrock),
                  fst (routing_table (priority req) azure bedrock))"
    by (cases h; cases "priority req") (simp_all add: choose_models_def routing_table_def)
  from a show "fst (fst (choose_models req azure bedrock)) = provider_str h"
    by (cases h; cases "priority req") (simp_all add: choose_models_def routing_table_def)
  from a show "fst (snd (choose_models req azure bedrock)) \<noteq> provider_str h"
    by (cases h; cases "priority req") (simp_all add: choose_models_def routing_table_def)
next
  assume "provider_hint req = None
          \<or> (\<exists>h. provider_hint req = Some h
                  \<and> provider_str h = fst (fst (routing_table (priority req) azure bedrock)))"
  then show "choose_models req azure bedrock = routing_table (priority req) azure bedrock"
  proof
    assume "provider_hint req = None"
    then show ?thesis
      by (simp add: choose_models_def split: prod.splits)
  next
    assume "\<exists>h. provider_hint req = Some h
                \<and> provider_str h = fst (fst (routing_table (priority req) azure bedrock))"
    then obtain h where "provider_hint req = Some h"
      and "provider_str h = fst (fst (routing_table (priority req) azure bedrock))"
      by blast
    then show ?thesis
      by (cases h; cases "priority req") (simp_all add: choose_models_def routing_table_def)
  qed
next
  fix h
  assume "provider_hint req = Some h
          \<and> provider_str h = fst (snd (routing_table (priority req) azure bedrock))"
  then show "fst (fst (choose_models req azure bedrock)) = provider_str h"
    by (cases h; cases "priority req") (simp_all add: choose_models_def routing_table_def)
qed

theorem choose_models_hint_witness:
  "provider_hint (ex_request \<lparr> provider_hint := Some Azure \<rparr>) = Some Azure
   \<and> provider_str Azure \<noteq> fst (fst (routing_table (priority (ex_request \<lparr> provider_hint := Some Azure \<rparr>)) ex_azure ex_bedrock))
   \<and> choose_models (ex_request \<lparr> provider_hint := Some Azure \<rparr>) ex_azure ex_bedrock
       = ((''azure'', ''gpt-4o-mini''), (''bedrock'', ''claude-haiku''))
   \<and> provider_hint ex_request = None
   \<and> choose_models ex_request ex_azure ex_bedrock
       = ((''bedrock'', ''claude-haiku''), (''azure'', ''gpt-4o-mini''))"
  using choose_models_hint [of "ex_request \<lparr> provider_hint := Some Azure \<rparr>" ex_azure ex_bedrock]
        choose_models_hint [of ex_request ex_azure ex_bedrock]
  by (simp add: ex_request_def ex_azure_def ex_bedrock_def routing_table_def)

text \<open>
  Claim C5 asks that a \<open>low_cost\<close> request without a hint goes first to the provider with
  the lower configured unit cost. The code does not look at the prices: it always puts Bedrock
  first and Azure second, while under the default prices Azure is the cheaper provider for input
  and for output tokens.
\<close>

theorem choose_models_low_cost_starts_with_bedrock:
  "choose_models (req \<lparr> priority := Low_cost, provider_hint := None \<rparr>) azure bedrock
     = ((''bedrock'', model_low_cost bedrock), (''azure'', deployment_low_cost azure))
   \<and> azure_cost_per_1k_input_usd default_app_config < bedrock_cost_per_1k_input_usd default_app_config
   \<and> azure_cost_per_1k_output_usd default_app_config < bedrock_cost_per_1k_output_usd default_app_config"
  by (simp add: choose_models_def routing_table_def default_app_config_def)

section \<open>The orchestrator: proofs\<close>

subsection \<open>Unfolding a run\<close>

lemma call_unfold:
  "call w app_cfg req rid (build_system_prompt (task req)) (fst sel) (snd sel) db =
     (case provider_outcome w app_cfg req sel of
        Inl m \<Rightarrow> (Inl (ProviderError m), db)
      | Inr result \<Rightarrow>
          (let est = (if fst sel = ''azure''
                      then estimate_cost ''azure'' (prompt req) (result_text result)
                             (azure_cost_per_1k_input_usd app_cfg) (azure_cost_per_1k_output_usd app_cfg)
                      else estimate_cost ''bedrock'' (prompt req) (result_text result)
                             (bedrock_cost_per_1k_input_usd app_cfg) (bedrock_cost_per_1k_output_usd app_cfg));
               response = \<lparr> resp_provider = fst sel, resp_model = snd sel,
                             resp_text = result_text result,
                             resp_latency_ms = result_latency_ms result, usage = est \<rparr>
           in if enable_request_logging app_cfg then
                (case usage_logger_log w db rid (fst sel) (snd sel) (task req) (priority req)
                        est (result_latency_ms result) True None of
                   (Inl e, db') \<Rightarrow> (Inl e, db')
                 | (Inr u, db') \<Rightarrow> (Inr response, db'))
              else (Inr response, db)))"
  by (simp add: call_def provider_outcome_def Let_def split: sum.splits)

lemma run_generation_unfold:
  "run_generation w app_cfg azure_cfg bedrock_cfg req rid db =
     (case primary_attempt w app_cfg azure_cfg bedrock_cfg req rid db of
        (Inr pr, db1) \<Rightarrow> (Inr (make_response rid pr False [pr]), db1)
      | (Inl e1, db1) \<Rightarrow>
          (case log_failure w app_cfg req rid (fst (choose_models req azure_cfg bedrock_cfg)) e1 db1 of
             (Inl le, db2) \<Rightarrow> (Inl le, db2)
           | (Inr u, db2) \<Rightarrow>
               (case call w app_cfg req rid (build_system_prompt (task req))
                       (fst (snd (choose_models req azure_cfg bedrock_cfg)))
                       (snd (snd (choose_models req azure_cfg bedrock_cfg))) db2 of
                  (Inr sr, db3) \<Rightarrow> (Inr (make_response rid sr True [sr]), db3)
                | (Inl e2, db3) \<Rightarrow>
                    (case log_failure w app_cfg req rid (snd (choose_models req azure_cfg bedrock_cfg)) e2 db3 of
                       (Inl le, db4) \<Rightarrow> (Inl le, db4)
                     | (Inr u, db4) \<Rightarrow>
                         (Inl (RuntimeError (''Both providers failed. Primary: '' @ str_exn e1 @
                                             ''; Secondary: '' @ str_exn e2)), db4)))))"
  by (cases "choose_models req azure_cfg bedrock_cfg")
     (auto simp: run_generation_def primary_attempt_def Let_def split: prod.splits sum.splits)

lemma secondary_attempt_unfold:
  "secondary_attempt w app_cfg azure_cfg bedrock_cfg req rid db =
     (case primary_attempt w app_cfg azure_cfg bedrock_cfg req rid db of
        (Inr pr, db1) \<Rightarrow> None
      | (Inl e1, db1) \<Rightarrow>
          (case log_failure w app_cfg req rid (fst (choose_models req azure_cfg bedrock_cfg)) e1 db1 of
             (Inl le, db2) \<Rightarrow> None
           | (Inr u, db2) \<Rightarrow>
               Some (call w app_cfg req rid (build_system_prompt (task req))
                       (fst (snd (choose_models req azure_cfg bedrock_cfg)))
                       (snd (snd (choose_models req azure_cfg bedrock_cfg))) db2)))"
  by (cases "choose_models req azure_cfg bedrock_cfg")
     (auto simp: secondary_attempt_def Let_def split: prod.splits sum.splits)

lemma make_response_fields [simp]:
  "fallback_used (make_response rid chosen fb atts) = fb"
  "attempts (make_response rid chosen fb atts) = atts"
  "request_id (make_response rid chosen fb atts) = rid"
  by (simp_all add: make_response_def)

lemma provider_outcome_sink [simp]:
  "provider_outcome (w\<lparr>sink_error := f\<rparr>) app_cfg req sel = provider_outcome w app_cfg req sel"
  by (simp add: provider_outcome_def)

lemma call_quiet:
  assumes "enable_request_logging app_cfg \<longrightarrow> (\<forall>n. sink_error w n = None)"
  shows "provider_outcome w app_cfg req sel = Inr res \<Longrightarrow>
           \<exists>pr db1. call w app_cfg req rid (build_system_prompt (task req)) (fst sel) (snd sel) db
             = (Inr pr, db1)"
    and "provider_outcome w app_cfg req sel = Inl m \<Longrightarrow>
           call w app_cfg req rid (build_system_prompt (task req)) (fst sel) (snd sel) db
             = (Inl (ProviderError m), db)"
  using assms
  by (auto simp: call_unfold usage_logger_log_def Let_def split: sum.splits)

lemma log_failure_quiet:
  assumes "enable_request_logging app_cfg \<longrightarrow> (\<forall>n. sink_error w n = None)"
  shows "fst (log_failure w app_cfg req rid sel e db) = Inr ()"
  using assms by (simp add: log_failure_def usage_logger_log_def)

lemma call_provider_raises:
  assumes "provider_outcome w app_cfg req sel = Inl m"
  shows "call w app_cfg req rid (build_system_prompt (task req)) (fst sel) (snd sel) db
           = (Inl (ProviderError m), db)"
  using assms by (simp add: call_unfold)

lemma call_sink_raises:
  assumes "provider_outcome w app_cfg req sel = Inr res"
    and "enable_request_logging app_cfg" and "sink_error w (log_calls db) = Some m"
  shows "call w app_cfg req rid (build_system_prompt (task req)) (fst sel) (snd sel) db
           = (Inl (SinkError m), db\<lparr>log_calls := Suc (log_calls db)\<rparr>)"
  using assms by (simp add: call_unfold usage_logger_log_def Let_def)

lemma call_returns:
  assumes "provider_outcome w app_cfg req sel = Inr res"
    and "\<not> enable_request_logging app_cfg \<or> sink_error w (log_calls db) = None"
  shows "fst (call w app_cfg req rid (build_system_prompt (task req)) (fst sel) (snd sel) db)
           = Inr \<lparr> resp_provider = fst sel, resp_model = snd sel,
                   resp_text = result_text res,
                   resp_latency_ms = result_latency_ms res,
                   usage = (if fst sel = ''azure''
                            then estimate_cost ''azure'' (prompt req) (result_text res)
                                   (azure_cost_per_1k_input_usd app_cfg)
                                   (azure_cost_per_1k_output_usd app_cfg)
                            else estimate_cost ''bedrock'' (prompt req) (result_text res)
                                   (bedrock_cost_per_1k_input_usd app_cfg)
                                   (bedrock_cost_per_1k_output_usd app_cfg)) \<rparr>"
  using assms by (auto simp: call_unfold usage_logger_log_def Let_def)

lemma log_failure_disabled:
  "\<not> enable_request_logging app_cfg \<Longrightarrow> log_failure w app_cfg req rid sel e db = (Inr (), db)"
  by (simp add: log_failure_def)

lemma log_failure_committed:
  assumes "enable_request_logging app_cfg" and "sink_error w (log_calls db) = None"
  shows "\<exists>db'. log_failure w app_cfg req rid sel e db = (Inr (), db')
               \<and> log_calls db' = Suc (log_calls db)"
  using assms by (simp add: log_failure_def usage_logger_log_def)

lemma log_failure_raises:
  assumes "enable_request_logging app_cfg" and "sink_error w (log_calls db) = Some m"
  shows "log_failure w app_cfg req rid sel e db
           = (Inl (SinkError m), db\<lparr>log_calls := Suc (log_calls db)\<rparr>)"
  using assms by (simp add: log_failure_def usage_logger_log_def)

lemma run_after_primary_failure:
  assumes "isl (fst (primary_attempt w app_cfg azure_cfg bedrock_cfg req rid db))"
    and "fst (run_generation w app_cfg azure_cfg bedrock_cfg req rid db) = Inr r"
  shows "fallback_used r \<and> length (attempts r) = 1"
  using assms
  by (auto simp: run_generation_unfold split: prod.splits sum.splits)

lemma run_after_secondary_failure:
  assumes "fst (primary_attempt w app_cfg azure_cfg bedrock_cfg req rid db) = Inl e1"
    and "log_failure w app_cfg req rid (fst (choose_models req azure_cfg bedrock_cfg)) e1
           (snd (primary_attempt w app_cfg azure_cfg bedrock_cfg req rid db)) = (Inr (), db2)"
    and "fst (call w app_cfg req rid (build_system_prompt (task req))
                (fst (snd (choose_models req azure_cfg bedrock_cfg)))
                (snd (snd (choose_models req azure_cfg bedrock_cfg))) db2) = Inl e2"
  shows "isl (fst (run_generation w app_cfg azure_cfg bedrock_cfg req rid db))"
  using assms
  by (auto simp: run_generation_unfold split: prod.splits sum.splits)

lemma run_primary_returns:
  assumes "fst (primary_attempt w app_cfg azure_cfg bedrock_cfg req rid db) = Inr pr"
  shows "fst (run_generation w app_cfg azure_cfg bedrock_cfg req rid db)
           = Inr (make_response rid pr False [pr])"
  using assms
  by (auto simp: run_generation_unfold split: prod.splits sum.splits)

lemma run_secondary_returns:
  assumes "fst (primary_attempt w app_cfg azure_cfg bedrock_cfg req rid db) = Inl e1"
    and "log_failure w app_cfg req rid (fst (choose_models req azure_cfg bedrock_cfg)) e1
           (snd (primary_attempt w app_cfg azure_cfg bedrock_cfg req rid db)) = (Inr (), db2)"
    and "fst (call w app_cfg req rid (build_system_prompt (task req))
                (fst (snd (choose_models req azure_cfg bedrock_cfg)))
                (snd (snd (choose_models req azure_cfg bedrock_cfg))) db2) = Inr sr"
  shows "fst (run_generation w app_cfg azure_cfg bedrock_cfg req rid db)
           = Inr (make_response rid sr True [sr])"
  using assms
  by (auto simp: run_generation_unfold split: prod.splits sum.splits)

lemma run_primary_log_raises:
  assumes "fst (primary_attempt w app_cfg azure_cfg bedrock_cfg req rid db) = Inl e1"
    and "fst (log_failure w app_cfg req rid (fst (choose_models req azure_cfg bedrock_cfg)) e1
           (snd (primary_attempt w app_cfg azure_cfg bedrock_cfg req rid db))) = Inl le"
  shows "fst (run_generation w app_cfg azure_cfg bedrock_cfg req rid db) = Inl le"
  using assms
  by (auto simp: run_generation_unfold split: prod.splits sum.splits)

lemma call_returns_provider:
  assumes "call w app_cfg req rid (build_system_prompt (task req)) (fst sel) (snd sel) db
             = (Inr pr, db')"
  shows "\<not> isl (provider_outcome w app_cfg req sel)"
proof
  assume "isl (provider_outcome w app_cfg req sel)"
  then obtain m where "provider_outcome w app_cfg req sel = Inl m"
    by (auto simp: isl_def)
  then have "call w app_cfg req rid (build_system_prompt (task req)) (fst sel) (snd sel) db
               = (Inl (ProviderError m), db)"
    by (rule call_provider_raises)
  with assms show False by simp
qed

subsection \<open>Evaluation on the concrete inputs\<close>

lemmas ex_defs = ex_azure_def ex_bedrock_def ex_request_def empty_db_def world_ok_def
  world_sink_down_def world_primary_down_def world_both_down_def default_app_config_def

lemmas run_defs = run_generation_def call_def log_failure_def usage_logger_log_def make_args_def
  make_response_def choose_models_def routing_table_def

lemmas att_defs = primary_attempt_def secondary_attempt_def provider_outcome_def new_rows_def
  build_system_prompt_def

subsection \<open>Terminal error (claim C1)\<close>




subsection \<open>Failures of the usage logger (claim C2)\<close>

lemma primary_attempt_sel:
  "primary_attempt w app_cfg azure_cfg bedrock_cfg req rid db
     = call w app_cfg req rid (build_system_prompt (task req))
         (fst (fst (choose_models req azure_cfg bedrock_cfg)))
         (snd (fst (choose_models req azure_cfg bedrock_cfg))) db"
  by (simp add: primary_attempt_def Let_def)




subsection \<open>The fallback flag (claim C3)\<close>




subsection \<open>Usage records (claim C4)\<close>




subsection \<open>Length of the attempts list (claim C6)\<close>

text \<open>
  Claim C6 as stated fails: a failed attempt produces no \<open>ProviderResponse\<close>, so nothing
  is appended to \<open>attempts\<close> for it. When Bedrock raises and Azure answers, the secondary is
  attempted and the result holds one attempt.
\<close>

theorem fallback_attempts_length_counterexample:
  "isl (fst (primary_attempt world_primary_down default_app_config ex_azure ex_bedrock ex_request
               ''r-1'' empty_db))
   \<and> secondary_attempt world_primary_down default_app_config ex_azure ex_bedrock ex_request
        ''r-1'' empty_db \<noteq> None
   \<and> \<not> isl (fst (run_generation world_primary_down default_app_config ex_azure ex_bedrock ex_request
                     ''r-1'' empty_db))
   \<and> length (attempts (projr (fst (run_generation world_primary_down default_app_config ex_azure
                                      ex_bedrock ex_request ''r-1'' empty_db)))) = 1"
  by (simp add: run_defs att_defs ex_defs Let_def)

text \<open>
  Claim C6, amended. For every run in which the primary attempt fails, a returned result has
  \<open>fallback_used\<close> true and an attempts list of length 1: when the secondary attempt
  returns, the list is exactly the secondary's response, and when the secondary attempt fails
  too, no result is returned.
\<close>

theorem fallback_attempts_length:
  assumes "isl (fst (primary_attempt w app_cfg azure_cfg bedrock_cfg req rid db))"
  shows "(\<forall>r. fst (run_generation w app_cfg azure_cfg bedrock_cfg req rid db) = Inr r \<longrightarrow>
             fallback_used r \<and> length (attempts r) = 1)
         \<and> (\<forall>sr db3. secondary_attempt w app_cfg azure_cfg bedrock_cfg req rid db = Some (Inr sr, db3) \<longrightarrow>
               (\<exists>r. fst (run_generation w app_cfg azure_cfg bedrock_cfg req rid db) = Inr r
                     \<and> attempts r = [sr]))
         \<and> (\<forall>e2 db3. secondary_attempt w app_cfg azure_cfg bedrock_cfg req rid db = Some (Inl e2, db3) \<longrightarrow>
               isl (fst (run_generation w app_cfg azure_cfg bedrock_cfg req rid db)))"
  using assms
  by (auto simp: run_generation_unfold secondary_attempt_unfold
           split: prod.splits sum.splits)

theorem fallback_attempts_length_witness:
  "isl (fst (primary_attempt world_primary_down default_app_config ex_azure ex_bedrock ex_request
               ''r-1'' empty_db))
   \<and> fst (run_generation world_primary_down default_app_config
            ex_azure ex_bedrock ex_request ''r-1'' empty_db)
       = Inr (make_response ''r-1''
                \<lparr> resp_provider = ''azure'', resp_model = ''gpt-4o-mini'',
                  resp_text = ''A monoid in the category of endofunctors.'',
                  resp_latency_ms = 120,
                  usage = \<lparr> input_tokens_est = 4, output_tokens_est = 10, total_tokens_est = 14,
                            cost_est_usd = 33 / 5000000 \<rparr> \<rparr>
                True
                [\<lparr> resp_provider = ''azure'', resp_model = ''gpt-4o-mini'',
                   resp_text = ''A monoid in the category of endofunctors.'',
                   resp_latency_ms = 120,
                   usage = \<lparr> input_tokens_est = 4, output_tokens_est = 10, total_tokens_est = 14,
                             cost_est_usd = 33 / 5000000 \<rparr> \<rparr>])
   \<and> isl (fst (run_generation world_both_down default_app_config ex_azure ex_bedrock ex_request
                 ''r-1'' empty_db))"
  using fallback_attempts_length
          [where w = world_primary_down and app_cfg = default_app_config
             and azure_cfg = ex_azure and bedrock_cfg = ex_bedrock and req = ex_request
             and rid = "''r-1''" and db = empty_db]
        fallback_attempts_length
          [where w = world_both_down and app_cfg = default_app_config
             and azure_cfg = ex_azure and bedrock_cfg = ex_bedrock and req = ex_request
             and rid = "''r-1''" and db = empty_db]
  by (simp add: run_defs att_defs ex_defs Let_def est_tokens_def py_int_def estimate_cost_def
                py_round_def round_half_even_def)

end
